theory Spec2Isabelle
  imports Main "HOL-Library.Multiset"
begin

unbundle bit_operations_syntax

section \<open>Python values used by check\_flows.py\<close>

text \<open>
  Strings are lists of code points below 256. The functions of this section are the
  built-ins that \<^verbatim>\<open>check_flows.py\<close> calls on strings: \<^verbatim>\<open>str.replace(' ', '')\<close>,
  \<^verbatim>\<open>str.strip()\<close>, \<^verbatim>\<open>str.split(sep)\<close>, \<^verbatim>\<open>sep.join(xs)\<close>, \<^verbatim>\<open>str(n)\<close> and
  \<^verbatim>\<open>repr(s)\<close>.
\<close>

definition replace_space :: "string \<Rightarrow> string" where
  \<comment> \<open>\<^verbatim>\<open>s.replace(' ', '')\<close>: every U+0020 is removed, nothing else\<close>
  "replace_space s = filter (\<lambda>c. c \<noteq> CHR '' '') s"

definition isspace :: "char \<Rightarrow> bool" where
  \<comment> \<open>the code points below 256 for which \<^verbatim>\<open>str.isspace\<close> holds\<close>
  "isspace c = ((of_char c :: nat) \<in> {9, 10, 11, 12, 13, 28, 29, 30, 31, 32, 133, 160})"

definition strip :: "string \<Rightarrow> string" where
  "strip s = rev (dropWhile isspace (rev (dropWhile isspace s)))"

fun str_split :: "char \<Rightarrow> string \<Rightarrow> string list" where
  "str_split sep [] = [[]]"
| "str_split sep (c # cs) =
     (if c = sep then [] # str_split sep cs
      else (case str_split sep cs of
              [] \<Rightarrow> [[c]]
            | w # ws \<Rightarrow> (c # w) # ws))"

fun str_join :: "string \<Rightarrow> string list \<Rightarrow> string" where
  "str_join sep [] = []"
| "str_join sep [x] = x"
| "str_join sep (x # y # ys) = x @ sep @ str_join sep (y # ys)"

definition digit_char :: "nat \<Rightarrow> char" where
  "digit_char d = char_of (48 + d)"

fun str_nat :: "nat \<Rightarrow> string" where
  "str_nat n = (if n < 10 then [digit_char n]
                else str_nat (n div 10) @ [digit_char (n mod 10)])"

declare str_nat.simps [simp del]

definition str_int :: "int \<Rightarrow> string" where
  "str_int i = (if i < 0 then CHR ''-'' # str_nat (nat (- i)) else str_nat (nat i))"

definition isprintable :: "char \<Rightarrow> bool" where
  "isprintable c = (let n = (of_char c :: nat) in (32 \<le> n \<and> n < 127) \<or> (161 \<le> n \<and> n \<noteq> 173))"

definition hex_digit :: "nat \<Rightarrow> char" where
  "hex_digit d = (if d < 10 then char_of (48 + d) else char_of (87 + d))"

definition repr_char :: "char \<Rightarrow> char \<Rightarrow> string" where
  \<comment> \<open>one character inside \<^verbatim>\<open>repr(s)\<close>, \<open>q\<close> being the quote chosen for the string\<close>
  "repr_char q c =
     (if c = q \<or> c = CHR 0x5C then [CHR 0x5C, c]
      else if c = CHR 0x09 then [CHR 0x5C, CHR ''t'']
      else if c = CHR 0x0A then [CHR 0x5C, CHR ''n'']
      else if c = CHR 0x0D then [CHR 0x5C, CHR ''r'']
      else if isprintable c then [c]
      else [CHR 0x5C, CHR ''x'', hex_digit (of_char c div 16), hex_digit (of_char c mod 16)])"

definition repr_str :: "string \<Rightarrow> string" where
  \<comment> \<open>double quotes only when the string has a single quote and no double quote\<close>
  "repr_str s =
     (let q = (if CHR 0x27 \<in> set s \<and> CHR 0x22 \<notin> set s then CHR 0x22 else CHR 0x27)
      in q # concat (map (repr_char q) s) @ [q])"

definition repr_list :: "string list \<Rightarrow> string" where
  "repr_list xs = ''['' @ str_join '', '' (map repr_str xs) @ '']''"

definition repr_key :: "string option \<Rightarrow> string" where
  \<comment> \<open>\<^verbatim>\<open>str(KeyError(k))\<close> is \<^verbatim>\<open>repr(k)\<close>; the key is a string or \<^verbatim>\<open>None\<close>\<close>
  "repr_key k = (case k of None \<Rightarrow> ''None'' | Some s \<Rightarrow> repr_str s)"

text \<open>
  The value of a spreadsheet cell (\<^verbatim>\<open>cell.value\<close> in openpyxl): empty, text, an integer
  or a boolean. Floating-point and date cells are not represented.
\<close>

datatype cell = CNone | CStr string | CInt int | CBool bool

fun str_cell :: "cell \<Rightarrow> string" where
  \<comment> \<open>how an f-string renders the value\<close>
  "str_cell CNone = ''None''"
| "str_cell (CStr s) = s"
| "str_cell (CInt i) = str_int i"
| "str_cell (CBool b) = (if b then ''True'' else ''False'')"

fun truthy :: "cell \<Rightarrow> bool" where
  "truthy CNone = False"
| "truthy (CStr s) = (s \<noteq> [])"
| "truthy (CInt i) = (i \<noteq> 0)"
| "truthy (CBool b) = b"

fun cell_in :: "cell \<Rightarrow> string list \<Rightarrow> bool" where
  \<comment> \<open>\<^verbatim>\<open>x in xs\<close> for a list of strings: only a string equals a string\<close>
  "cell_in (CStr s) xs = (s \<in> set xs)"
| "cell_in _ xs = False"

datatype exn = KeyError | UnboundLocalError | AttributeError | IndexError | InvalidFile

section \<open>The ipaddress library, as far as the loader uses it\<close>

text \<open>
  An \<^verbatim>\<open>IPv4Network\<close> object: the network address as an integer and the prefix length.
  The library only builds objects that satisfy \<open>valid_network\<close> (strict mode rejects
  host bits). IPv6 networks are not represented.
\<close>

record network =
  network_address :: nat
  prefixlen :: nat

definition max_prefixlen :: nat where
  "max_prefixlen = 32"

definition hostmask :: "network \<Rightarrow> nat" where
  "hostmask n = 2 ^ (max_prefixlen - prefixlen n) - 1"

definition broadcast_address :: "network \<Rightarrow> nat" where
  "broadcast_address n = network_address n OR hostmask n"

definition valid_network :: "network \<Rightarrow> bool" where
  "valid_network n =
     (prefixlen n \<le> max_prefixlen \<and> network_address n < 2 ^ 32 \<and>
      network_address n mod 2 ^ (max_prefixlen - prefixlen n) = 0)"

definition py_range :: "nat \<Rightarrow> nat \<Rightarrow> nat \<Rightarrow> nat list" where
  \<comment> \<open>\<^verbatim>\<open>range(start, stop, step)\<close> for a positive step\<close>
  "py_range start stop step =
     map (\<lambda>k. start + k * step) [0 ..< (stop - start + step - 1) div step]"

definition subnets :: "network \<Rightarrow> nat \<Rightarrow> network list option" where
  \<comment> \<open>\<^verbatim>\<open>net.subnets(new_prefix=p)\<close>; \<open>None\<close> is the \<^verbatim>\<open>ValueError\<close>, raised before anything
      is yielded\<close>
  "subnets n new_prefix =
     (if prefixlen n = max_prefixlen then Some [n]
      else if new_prefix < prefixlen n then None
      else if max_prefixlen < new_prefix then None
      else
        let prefixlen_diff = new_prefix - prefixlen n;
            start = network_address n;
            stop = broadcast_address n + 1;
            step = drop_bit prefixlen_diff (hostmask n + 1)
        in Some (map (\<lambda>a. \<lparr>network_address = a, prefixlen = new_prefix\<rparr>)
                     (py_range start stop step)))"

definition str_address :: "nat \<Rightarrow> string" where
  "str_address a =
     str_join ''.'' (map str_nat [a div 2 ^ 24 mod 256, a div 2 ^ 16 mod 256,
                                  a div 2 ^ 8 mod 256, a mod 256])"

definition exploded :: "network \<Rightarrow> string" where
  "exploded n = str_address (network_address n) @ ''/'' @ str_nat (prefixlen n)"

subsection \<open>Parsing IPv4 text\<close>

text \<open>
  The loader is modelled over any parsing function. \<open>ip_network4\<close> is the one of the
  library for IPv4 text (\<^verbatim>\<open>IPv4Network(address, strict=True)\<close>): four decimal octets
  without leading zeros, then nothing (a /32), a decimal prefix length, or a netmask or
  hostmask as a dotted quad. Text that the library would read as IPv6 (it contains a
  colon) is outside this function.
\<close>

definition isdigit :: "string \<Rightarrow> bool" where
  "isdigit s = (s \<noteq> [] \<and> list_all (\<lambda>c. 48 \<le> (of_char c :: nat) \<and> (of_char c :: nat) \<le> 57) s)"

definition int_of_str :: "string \<Rightarrow> nat" where
  "int_of_str s = foldl (\<lambda>a c. 10 * a + (of_char c - 48)) 0 s"

definition parse_octet :: "string \<Rightarrow> nat option" where
  "parse_octet octet_str =
     (if octet_str = [] then None
      else if \<not> isdigit octet_str then None
      else if length octet_str > 3 then None
      else if octet_str \<noteq> ''0'' \<and> hd octet_str = CHR ''0'' then None
      else if int_of_str octet_str > 255 then None
      else Some (int_of_str octet_str))"

definition ip_int_from_string :: "string \<Rightarrow> nat option" where
  "ip_int_from_string ip_str =
     (if ip_str = [] then None
      else (case map parse_octet (str_split CHR ''.'' ip_str) of
              [Some a, Some b, Some c, Some d] \<Rightarrow> Some (((a * 256 + b) * 256 + c) * 256 + d)
            | _ \<Rightarrow> None))"

definition prefix_from_ip_int :: "nat \<Rightarrow> nat option" where
  \<comment> \<open>the prefix length of a netmask: ones followed by zeros\<close>
  "prefix_from_ip_int ip_int = find (\<lambda>p. ip_int = 2 ^ 32 - 2 ^ (32 - p)) [0 ..< 33]"

definition prefix_from_ip_string :: "string \<Rightarrow> nat option" where
  "prefix_from_ip_string ip_str =
     (case ip_int_from_string ip_str of
        None \<Rightarrow> None
      | Some ip_int \<Rightarrow>
          (case prefix_from_ip_int ip_int of
             Some p \<Rightarrow> Some p
           | None \<Rightarrow> prefix_from_ip_int (2 ^ 32 - 1 - ip_int)))"

definition make_netmask :: "string \<Rightarrow> nat option" where
  "make_netmask arg =
     (if isdigit arg \<and> int_of_str arg \<le> 32 then Some (int_of_str arg)
      else prefix_from_ip_string arg)"

definition ip_network4 :: "string \<Rightarrow> network option" where
  "ip_network4 address =
     (let parts = str_split CHR ''/'' address in
      if length parts > 2 then None
      else (case ip_int_from_string (hd parts) of
              None \<Rightarrow> None
            | Some packed \<Rightarrow>
                (case (if length parts = 2 then make_netmask (parts ! 1) else Some 32) of
                   None \<Rightarrow> None
                 | Some p \<Rightarrow>
                     if packed mod 2 ^ (32 - p) \<noteq> 0 then None
                     else Some \<lparr>network_address = packed, prefixlen = p\<rparr>)))"

section \<open>excel\_to\_cidr\_dict\<close>

record information =
  cidr :: string
  account_id :: cell
  name :: cell
  vpc_id :: cell
  associate_with :: cell
  propagate_to :: "string list"

definition cell_at :: "cell list \<Rightarrow> nat \<Rightarrow> exn + cell" where
  \<comment> \<open>\<^verbatim>\<open>row[i].value\<close>\<close>
  "cell_at row i = (if i < length row then Inr (row ! i) else Inl IndexError)"

definition bind_exn :: "exn + 'a \<Rightarrow> ('a \<Rightarrow> exn + 'b) \<Rightarrow> exn + 'b" where
  "bind_exn r f = (case r of Inl e \<Rightarrow> Inl e | Inr v \<Rightarrow> f v)"

definition parse_propagate_to :: "cell \<Rightarrow> exn + string list" where
  "parse_propagate_to propagate_to_str =
     (if truthy propagate_to_str then
        (case propagate_to_str of
           CStr s \<Rightarrow> Inr (map strip (str_split CHR '','' s))
         | _ \<Rightarrow> Inl AttributeError)
      else Inr [])"

definition row_information :: "cell list \<Rightarrow> exn + information" where
  \<comment> \<open>lines 57 to 79: the cells of one sheet row become the information dict\<close>
  "row_information row =
     bind_exn (cell_at row 0) (\<lambda>c0.
       (case c0 of
          CStr c \<Rightarrow>
            bind_exn (cell_at row 1) (\<lambda>c1.
            bind_exn (cell_at row 2) (\<lambda>c2.
            bind_exn (cell_at row 3) (\<lambda>c3.
            bind_exn (cell_at row 4) (\<lambda>c4.
            bind_exn (cell_at row 5) (\<lambda>c5.
            bind_exn (parse_propagate_to c5) (\<lambda>ps.
              Inr \<lparr>cidr = replace_space c, account_id = c1, name = c2, vpc_id = c3,
                   associate_with = c4, propagate_to = ps\<rparr>))))))
        | _ \<Rightarrow> Inl AttributeError))"

definition block_key :: "network \<Rightarrow> string" where
  \<comment> \<open>\<^verbatim>\<open>".".join(cidr24.exploded.split('.')[:3])\<close>\<close>
  "block_key cidr24 = str_join ''.'' (take 3 (str_split CHR ''.'' (exploded cidr24)))"

definition skipping_message :: "information \<Rightarrow> string" where
  "skipping_message information =
     ''Skipping '' @ cidr information @ '' ('' @ str_cell (name information) @ ''), shorter than /24. ''"

type_synonym loader_state = "(string \<rightharpoonup> information) \<times> string list"

definition expand_row ::
  "(string \<Rightarrow> network option) \<Rightarrow> bool \<Rightarrow> information \<Rightarrow> loader_state \<Rightarrow> loader_state" where
  \<comment> \<open>lines 82 to 92; \<open>ip_network\<close> stands for \<^verbatim>\<open>ipaddress.ip_network\<close>, \<open>None\<close> for its
      \<^verbatim>\<open>ValueError\<close>; the second component is what has been printed\<close>
  "expand_row ip_network show_warnings information st =
     (case st of (return_dict, printed) \<Rightarrow>
        (case Option.bind (ip_network (cidr information)) (\<lambda>n. subnets n 24) of
           Some nets \<Rightarrow>
             (fold (\<lambda>cidr24 d. d(block_key cidr24 \<mapsto> information)) nets return_dict, printed)
         | None \<Rightarrow>
             (return_dict,
              if show_warnings then printed @ [skipping_message information] else printed)))"

fun load_rows ::
  "(string \<Rightarrow> network option) \<Rightarrow> bool \<Rightarrow> cell list list \<Rightarrow> loader_state \<Rightarrow> exn + loader_state" where
  "load_rows ip_network show_warnings [] st = Inr st"
| "load_rows ip_network show_warnings (row # rows) st =
     (case row_information row of
        Inl e \<Rightarrow> Inl e
      | Inr information \<Rightarrow> load_rows ip_network show_warnings rows
                    (expand_row ip_network show_warnings information st))"

definition excel_to_cidr_dict ::
  "(string \<Rightarrow> network option) \<Rightarrow> cell list list \<Rightarrow> bool \<Rightarrow> exn + loader_state" where
  \<comment> \<open>\<^verbatim>\<open>iter_rows(min_row=2)\<close> leaves the first sheet row out\<close>
  "excel_to_cidr_dict ip_network sheet show_warnings =
     load_rows ip_network show_warnings (drop 1 sheet) (Map.empty, [])"

subsection \<open>The /24 blocks of a declared network\<close>

text \<open>
  Following the specification, not the code: the /24 blocks that partition a network are
  the ranges of 256 addresses that start at a multiple of 256 and lie inside the address
  range of the network. \<open>blocks24\<close> is the set of their first addresses, and
  \<open>three_octets\<close> the key of the block that starts at an address, its first three octets
  in decimal with dots between them.
\<close>

definition three_octets :: "nat \<Rightarrow> string" where
  "three_octets a =
     str_nat (a div 2 ^ 24 mod 256) @ ''.'' @ str_nat (a div 2 ^ 16 mod 256) @ ''.''
       @ str_nat (a div 2 ^ 8 mod 256)"

definition blocks24 :: "network \<Rightarrow> nat set" where
  "blocks24 n =
     {b. 256 dvd b \<and> network_address n \<le> b \<and>
         b + 256 \<le> network_address n + 2 ^ (32 - prefixlen n)}"


section \<open>main\<close>

subsection \<open>csv.DictReader\<close>

text \<open>
  A flow-log file is given by the rows that \<^verbatim>\<open>csv.reader\<close> yields for it, each a list of
  strings (a blank line is the empty list). \<^verbatim>\<open>csv.DictReader\<close>, built without
  \<^verbatim>\<open>fieldnames\<close>, takes the first of them as the field names and turns every later
  non-blank row into a dict: a field beyond the end of a short row is \<^verbatim>\<open>None\<close>. The entry
  that collects the surplus values of a long row is keyed by \<^verbatim>\<open>None\<close> and is never read
  by \<^verbatim>\<open>main\<close>; it is left out.
\<close>

type_synonym csv_dict = "string \<rightharpoonup> string option"

definition dict_row :: "string list \<Rightarrow> string list \<Rightarrow> csv_dict" where
  "dict_row fieldnames row =
     fold (\<lambda>key d. d(key \<mapsto> None)) (drop (length row) fieldnames)
       (fold (\<lambda>kv d. d(fst kv \<mapsto> Some (snd kv))) (zip fieldnames row) Map.empty)"

definition DictReader :: "string list list \<Rightarrow> csv_dict list" where
  \<comment> \<open>everything the reader yields, in order\<close>
  "DictReader lines =
     (case lines of
        [] \<Rightarrow> []
      | fieldnames # rest \<Rightarrow> map (dict_row fieldnames) (filter (\<lambda>row. row \<noteq> []) rest))"

subsection \<open>The loop over the flow rows\<close>

text \<open>
  The local variables of \<^verbatim>\<open>main\<close> that the loop reads and writes. \<open>src_bound\<close> is the
  record from which \<^verbatim>\<open>src_association\<close>, \<^verbatim>\<open>src_name\<close>, \<^verbatim>\<open>src_vpc_id\<close> and \<^verbatim>\<open>src_cidr\<close>
  were last assigned, \<open>None\<close> as long as they are unbound: the four are assigned
  together, since \<^verbatim>\<open>info[src]\<close> either raises at the first of them or succeeds at all
  four. \<open>dst_bound\<close> is the same for the four \<^verbatim>\<open>dst_\<close> variables. They keep their values
  from one iteration to the next.
\<close>

record locals =
  total_count :: nat
  failed_count :: nat
  success_count :: nat
  unmatched_count :: nat
  failed_strings :: "string set"
  warning_strings :: "string set"
  src_bound :: "information option"
  dst_bound :: "information option"

definition init_locals :: locals where
  "init_locals =
     \<lparr>total_count = 0, failed_count = 0, success_count = 0, unmatched_count = 0,
      failed_strings = {}, warning_strings = {}, src_bound = None, dst_bound = None\<rparr>"

definition info_lookup :: "(string \<rightharpoonup> information) \<Rightarrow> string option \<Rightarrow> information option" where
  \<comment> \<open>\<^verbatim>\<open>info[k]\<close>, \<open>None\<close> being the \<^verbatim>\<open>KeyError\<close>; the key \<^verbatim>\<open>None\<close> is never in the dict\<close>
  "info_lookup info k = (case k of None \<Rightarrow> None | Some s \<Rightarrow> info s)"

definition warning_message :: "string option \<Rightarrow> string" where
  "warning_message k = ''Warning: no entry for '' @ repr_key k"

definition failed_message :: "information \<Rightarrow> information \<Rightarrow> string" where
  "failed_message s d =
     cidr s @ '' (src name: '' @ str_cell (name s) @ '', src id: '' @ str_cell (vpc_id s)
       @ '') cannot communicate with '' @ cidr d @ '' (dst name: '' @ str_cell (name d)
       @ '', dst id: '' @ str_cell (vpc_id d)
       @ '') , because the src association '' @ str_cell (associate_with s)
       @ '' is not in the dest propagations '' @ repr_list (propagate_to d)"

definition check_reach :: "locals \<Rightarrow> exn + locals" where
  \<comment> \<open>lines 154 to 160, on whatever the eight variables hold\<close>
  "check_reach s =
     (case src_bound s of
        None \<Rightarrow> Inl UnboundLocalError
      | Some rs \<Rightarrow>
          (case dst_bound s of
             None \<Rightarrow> Inl UnboundLocalError
           | Some rd \<Rightarrow>
               if \<not> cell_in (associate_with rs) (propagate_to rd) then
                 Inr (s\<lparr>failed_count := failed_count s + 1,
                        failed_strings := insert (failed_message rs rd) (failed_strings s)\<rparr>)
               else Inr (s\<lparr>success_count := success_count s + 1\<rparr>)))"

definition on_key_error :: "bool \<Rightarrow> string option \<Rightarrow> locals \<Rightarrow> exn + locals" where
  \<comment> \<open>lines 147 to 152: the \<^verbatim>\<open>continue\<close> belongs to the \<^verbatim>\<open>if show_warnings\<close>; without
      warnings control leaves the handler and reaches line 155\<close>
  "on_key_error show_warnings k s =
     (let s' = s\<lparr>unmatched_count := unmatched_count s + 1\<rparr> in
      if show_warnings then
        Inr (s'\<lparr>warning_strings := insert (warning_message k) (warning_strings s')\<rparr>)
      else check_reach s')"

definition loop_body ::
  "(string \<rightharpoonup> information) \<Rightarrow> bool \<Rightarrow> csv_dict \<Rightarrow> locals \<Rightarrow> exn + locals" where
  \<comment> \<open>lines 132 to 160 for one row; a missing column is a \<^verbatim>\<open>KeyError\<close> outside the
      \<^verbatim>\<open>try\<close>\<close>
  "loop_body info show_warnings row s0 =
     (let s = s0\<lparr>total_count := total_count s0 + 1\<rparr> in
      case row ''src'' of
        None \<Rightarrow> Inl KeyError
      | Some src \<Rightarrow>
      (case row ''dest'' of
        None \<Rightarrow> Inl KeyError
      | Some dst \<Rightarrow>
      (case row ''numpackets'' of
        None \<Rightarrow> Inl KeyError
      | Some numpackets \<Rightarrow>
      (case info_lookup info src of
        None \<Rightarrow> on_key_error show_warnings src s
      | Some rs \<Rightarrow>
      (case info_lookup info dst of
        None \<Rightarrow> on_key_error show_warnings dst (s\<lparr>src_bound := Some rs\<rparr>)
      | Some rd \<Rightarrow> check_reach (s\<lparr>src_bound := Some rs, dst_bound := Some rd\<rparr>))))))"

fun process_rows ::
  "(string \<rightharpoonup> information) \<Rightarrow> bool \<Rightarrow> csv_dict list \<Rightarrow> locals \<Rightarrow> exn + locals" where
  "process_rows info show_warnings [] s = Inr s"
| "process_rows info show_warnings (row # rows) s =
     (case loop_body info show_warnings row s of
        Inl e \<Rightarrow> Inl e
      | Inr s' \<Rightarrow> process_rows info show_warnings rows s')"

definition check_flow_log ::
  "(string \<rightharpoonup> information) \<Rightarrow> bool \<Rightarrow> string list list \<Rightarrow> exn + locals" where
  \<comment> \<open>lines 125 to 160: \<^verbatim>\<open>next(csvreader, None)\<close> takes the first dict the reader yields,
      the \<^verbatim>\<open>for\<close> loop the others\<close>
  "check_flow_log info show_warnings lines =
     process_rows info show_warnings (drop 1 (DictReader lines)) init_locals"

text \<open>What one row adds to the counters and sets when warnings are enabled.\<close>

definition row_alone :: "(string \<rightharpoonup> information) \<Rightarrow> csv_dict \<Rightarrow> locals" where
  "row_alone info row =
     (case loop_body info True row init_locals of Inr d \<Rightarrow> d | Inl e \<Rightarrow> init_locals)"

subsection \<open>The program\<close>

text \<open>
  The file system maps a path to the file it names. What \<^verbatim>\<open>main\<close> prints at the end is
  kept as a record: the two sets are printed one string per line in the order Python
  iterates over a set, which is not specified.
\<close>

datatype file_content = Workbook "cell list list" | Csv "string list list"

record args =
  arg_xlsx :: string
  arg_flowlogcsv :: string
  arg_show_warnings :: bool

record report =
  printed_by_loader :: "string list"
  failed_lines :: "string set"
  warning_lines :: "string set"
  total_processed_rows :: nat
  unmatched_rows :: nat
  successful_rows :: nat
  failed_rows :: nat
  deduplicated_failed_rows :: nat
  hint :: bool

datatype outcome =
    Exit nat "string list"  \<comment> \<open>\<^verbatim>\<open>sys.exit(code)\<close> after printing the lines\<close>
  | Traceback exn           \<comment> \<open>an exception that nothing catches\<close>
  | Completed report

definition isfile :: "(string \<rightharpoonup> file_content) \<Rightarrow> string \<Rightarrow> bool" where
  "isfile fs filename = (fs filename \<noteq> None)"

definition summary :: "string list \<Rightarrow> bool \<Rightarrow> locals \<Rightarrow> report" where
  \<comment> \<open>lines 162 to 178\<close>
  "summary printed show_warnings s =
     \<lparr>printed_by_loader = printed,
      failed_lines = failed_strings s,
      warning_lines = (if show_warnings then warning_strings s else {}),
      total_processed_rows = total_count s,
      unmatched_rows = unmatched_count s,
      successful_rows = success_count s,
      failed_rows = failed_count s,
      deduplicated_failed_rows = card (failed_strings s),
      hint = (unmatched_count s > 0 \<and> \<not> show_warnings)\<rparr>"

definition run :: "(string \<Rightarrow> network option) \<Rightarrow> (string \<rightharpoonup> file_content) \<Rightarrow> args \<Rightarrow> outcome" where
  \<comment> \<open>lines 116 to 178, both paths naming files\<close>
  "run ip_network fs a =
     (case fs (arg_xlsx a) of
        Some (Workbook sheet) \<Rightarrow>
          (case excel_to_cidr_dict ip_network sheet (arg_show_warnings a) of
             Inl e \<Rightarrow> Traceback e
           | Inr (info, printed) \<Rightarrow>
               (case fs (arg_flowlogcsv a) of
                  Some (Csv lines) \<Rightarrow>
                    (case check_flow_log info (arg_show_warnings a) lines of
                       Inl e \<Rightarrow> Traceback e
                     | Inr s \<Rightarrow> Completed (summary printed (arg_show_warnings a) s))
                | _ \<Rightarrow> Traceback InvalidFile))
      | _ \<Rightarrow> Traceback InvalidFile)"

definition main :: "(string \<Rightarrow> network option) \<Rightarrow> (string \<rightharpoonup> file_content) \<Rightarrow> args \<Rightarrow> outcome" where
  \<comment> \<open>lines 108 to 114, then the rest\<close>
  "main ip_network fs a =
     (case find (\<lambda>filename. \<not> isfile fs filename) [arg_xlsx a, arg_flowlogcsv a] of
        Some filename \<Rightarrow> Exit 1 [filename @ '' does not exist.'']
      | None \<Rightarrow> run ip_network fs a)"

subsection \<open>Example inputs\<close>

text \<open>
  A topology of two VPCs, each one /24 block, as the loader indexes it, and the header of
  a flow-log file.
\<close>

definition hub :: information where
  "hub = \<lparr>cidr = ''10.0.0.0/24'', account_id = CInt 111111111111, name = CStr ''Hub'',
          vpc_id = CStr ''vpc-1'', associate_with = CStr ''Hub'',
          propagate_to = [''Hub'', ''Spoke'']\<rparr>"

definition spoke :: information where
  "spoke = \<lparr>cidr = ''10.0.5.0/24'', account_id = CInt 222222222222, name = CStr ''Spoke'',
            vpc_id = CStr ''vpc-2'', associate_with = CStr ''Spoke'',
            propagate_to = [''Hub'']\<rparr>"

definition example_info :: "string \<rightharpoonup> information" where
  "example_info = [''10.0.0'' \<mapsto> hub, ''10.0.5'' \<mapsto> spoke]"

definition header :: "string list" where
  "header = [''src'', ''dest'', ''numpackets'']"

text \<open>
  Rows of a topology sheet: the header, a /23 written with a blank before the slash, a
  /24 inside it, a single address, and a /23 written with a tab before the slash. \<open>core\<close>,
  \<open>edge\<close> and \<open>host\<close> are the records of the second, third and fourth.
\<close>

definition sheet_header :: "cell list" where
  "sheet_header = [CStr ''cidr'', CStr ''account_id'', CStr ''name'', CStr ''vpc_id'',
                   CStr ''associate_with'', CStr ''propagate_to'']"

definition core_row :: "cell list" where
  "core_row = [CStr ''10.0.0.0 /23'', CInt 111111111111, CStr ''Core'', CStr ''vpc-1'',
               CStr ''Isolated'', CStr ''Infrastructure, Shared '']"

definition core :: information where
  "core = \<lparr>cidr = ''10.0.0.0/23'', account_id = CInt 111111111111, name = CStr ''Core'',
           vpc_id = CStr ''vpc-1'', associate_with = CStr ''Isolated'',
           propagate_to = [''Infrastructure'', ''Shared'']\<rparr>"



definition host_row :: "cell list" where
  "host_row = [CStr ''10.1.2.3/32'', CInt 333333333333, CStr ''Host'', CStr ''vpc-3'',
               CStr ''Spoke'', CStr ''Core'']"

definition host :: information where
  "host = \<lparr>cidr = ''10.1.2.3/32'', account_id = CInt 333333333333, name = CStr ''Host'',
           vpc_id = CStr ''vpc-3'', associate_with = CStr ''Spoke'', propagate_to = [''Core'']\<rparr>"

definition tab_row :: "cell list" where
  "tab_row = [CStr (''10.0.0.0'' @ [CHR 0x09] @ ''/23''), CInt 111111111111, CStr ''Core'',
              CStr ''vpc-1'', CStr ''Isolated'', CNone]"

section \<open>Properties of the loader\<close>

subsection \<open>Strings\<close>

lemma digit_char_range: "d < 10 \<Longrightarrow> of_char (digit_char d) = 48 + d"
  by (simp add: digit_char_def)

lemma str_nat_digits: "c \<in> set (str_nat n) \<Longrightarrow> 48 \<le> (of_char c :: nat) \<and> (of_char c :: nat) \<le> 57"
proof (induction n rule: str_nat.induct)
  case (1 n)
  show ?case
  proof (cases "n < 10")
    case True
    with "1.prems" show ?thesis
      by (simp add: str_nat.simps [of n] digit_char_range)
  next
    case False
    have "n mod 10 < 10" by simp
    with False "1.prems" "1.IH" show ?thesis
      by (auto simp add: str_nat.simps [of n] digit_char_range)
  qed
qed

lemma str_nat_no_dot: "CHR ''.'' \<notin> set (str_nat n)"
  using str_nat_digits [of "CHR ''.''" n] by auto




lemma digit_char_eval:
  "digit_char 0 = CHR ''0''" "digit_char (Suc 0) = CHR ''1''" "digit_char 2 = CHR ''2''"
  "digit_char 3 = CHR ''3''" "digit_char 4 = CHR ''4''" "digit_char 5 = CHR ''5''"
  "digit_char 6 = CHR ''6''" "digit_char 7 = CHR ''7''" "digit_char 8 = CHR ''8''"
  "digit_char 9 = CHR ''9''"
  by (simp_all add: digit_char_def char_of_eq_iff)

lemma str_nat_small:
  "str_nat 0 = ''0''" "str_nat (Suc 0) = ''1''" "str_nat 2 = ''2''" "str_nat 5 = ''5''" "str_nat 10 = ''10''"
  by (simp_all add: str_nat.simps [of 0] str_nat.simps [of "Suc 0"] str_nat.simps [of 2]
      str_nat.simps [of 5] str_nat.simps [of 10] digit_char_eval)


lemma str_split_first: "sep \<notin> set w \<Longrightarrow> str_split sep (w @ sep # rest) = w # str_split sep rest"
  by (induction w) auto

lemma str_split_nonempty: "str_split sep s \<noteq> []"
  by (induction s) (auto split: list.splits)

lemma str_split_no_sep: "w \<in> set (str_split sep s) \<Longrightarrow> sep \<notin> set w"
proof (induction s arbitrary: w)
  case Nil
  then show ?case by simp
next
  case (Cons c cs)
  show ?case
  proof (cases "c = sep")
    case True
    with Cons show ?thesis by auto
  next
    case False
    obtain v vs where v: "str_split sep cs = v # vs"
      using str_split_nonempty [of sep cs] by (cases "str_split sep cs") auto
    with False Cons.prems have "w = c # v \<or> w \<in> set vs" by simp
    with False v Cons.IH show ?thesis by auto
  qed
qed

lemma str_split_join: "str_join [sep] (str_split sep s) = s"
proof (induction s)
  case Nil
  then show ?case by simp
next
  case (Cons c cs)
  obtain v vs where v: "str_split sep cs = v # vs"
    using str_split_nonempty [of sep cs] by (cases "str_split sep cs") auto
  with Cons show ?case
    by (cases vs) auto
qed

lemma strip_surrounded:
  "\<exists>l r. s = l @ strip s @ r \<and> (\<forall>c \<in> set l. isspace c) \<and> (\<forall>c \<in> set r. isspace c)"
proof -
  define u where "u = dropWhile isspace s"
  have "rev (dropWhile isspace (rev u)) @ rev (takeWhile isspace (rev u)) =
          rev (takeWhile isspace (rev u) @ dropWhile isspace (rev u))"
    by (simp only: rev_append)
  also have "\<dots> = rev (rev u)"
    by (simp only: takeWhile_dropWhile_id)
  also have "\<dots> = u"
    by (simp only: rev_rev_ident)
  finally have "u = strip s @ rev (takeWhile isspace (rev u))"
    by (simp add: strip_def u_def)
  moreover have "s = takeWhile isspace s @ u" by (simp add: u_def)
  ultimately have "s = takeWhile isspace s @ strip s @ rev (takeWhile isspace (rev u))" by simp
  moreover have "\<forall>c \<in> set (takeWhile isspace s). isspace c"
    by (auto dest: set_takeWhileD)
  moreover have "\<forall>c \<in> set (rev (takeWhile isspace (rev u))). isspace c"
    by (auto dest: set_takeWhileD)
  ultimately show ?thesis by blast
qed

lemma strip_ends: "strip s = [] \<or> (\<not> isspace (hd (strip s)) \<and> \<not> isspace (last (strip s)))"
proof (cases "strip s = []")
  case True
  then show ?thesis by simp
next
  case False
  define u where "u = dropWhile isspace s"
  define v where "v = dropWhile isspace (rev u)"
  have t: "strip s = rev v" by (simp add: strip_def u_def v_def)
  with False have v: "v \<noteq> []" by simp
  then have "\<not> isspace (hd v)" unfolding v_def by (rule hd_dropWhile)
  with v have l: "\<not> isspace (last (strip s))" by (simp add: t last_rev)
  from v have "u \<noteq> []" by (auto simp add: v_def)
  then have "\<not> isspace (hd u)" unfolding u_def by (rule hd_dropWhile)
  moreover have "last v = last (rev u)"
    using v unfolding v_def by (metis append_is_Nil_conv last_appendR takeWhile_dropWhile_id)
  ultimately have "\<not> isspace (hd (strip s))"
    using v \<open>u \<noteq> []\<close> by (simp add: t hd_rev last_rev)
  with l show ?thesis by simp
qed

subsection \<open>Networks and their /24 subnets\<close>




lemma block_key_three_octets: "block_key n = three_octets (network_address n)"
proof -
  let ?a = "network_address n"
  let ?A = "str_nat (?a div 2 ^ 24 mod 256)" and ?B = "str_nat (?a div 2 ^ 16 mod 256)"
  let ?C = "str_nat (?a div 2 ^ 8 mod 256)" and ?D = "str_nat (?a mod 256) @ ''/'' @ str_nat (prefixlen n)"
  have "exploded n = ?A @ CHR ''.'' # (?B @ CHR ''.'' # (?C @ CHR ''.'' # ?D))"
    by (simp add: exploded_def str_address_def)
  then have "str_split CHR ''.'' (exploded n) = ?A # ?B # ?C # str_split CHR ''.'' ?D"
    by (simp only: str_split_first [OF str_nat_no_dot])
  then show ?thesis
    by (simp add: block_key_def three_octets_def)
qed




lemma blocks24_image:
  assumes "valid_network n" and "prefixlen n \<le> 24"
  shows "blocks24 n = (\<lambda>k. network_address n + k * 256) ` {0 ..< 2 ^ (24 - prefixlen n)}"
proof -
  define a where "a = network_address n"
  define M :: nat where "M = 2 ^ (24 - prefixlen n)"
  have "32 - prefixlen n = 8 + (24 - prefixlen n)"
    using assms(2) by simp
  then have "(2 :: nat) ^ (32 - prefixlen n) = 2 ^ 8 * 2 ^ (24 - prefixlen n)"
    by (simp only: power_add)
  then have size: "(2 :: nat) ^ (32 - prefixlen n) = 256 * M"
    by (simp add: M_def)
  have "a mod (256 * M) = 0"
    using assms(1) by (simp add: valid_network_def max_prefixlen_def size a_def)
  then have "256 * M dvd a"
    by (simp only: dvd_eq_mod_eq_0)
  then have "256 dvd a"
    by (rule dvd_mult_left)
  then obtain i where i: "a = 256 * i" ..
  have mem: "b \<in> blocks24 n \<longleftrightarrow> 256 dvd b \<and> a \<le> b \<and> b + 256 \<le> a + 256 * M" for b
    by (simp add: blocks24_def size a_def)
  show ?thesis
    unfolding a_def [symmetric] M_def [symmetric]
  proof (intro set_eqI iffI)
    fix b assume "b \<in> blocks24 n"
    then have "256 dvd b" and lo: "a \<le> b" and hi: "b + 256 \<le> a + 256 * M"
      by (simp_all add: mem)
    then obtain j where j: "b = 256 * j" by (auto elim: dvdE)
    from lo have ij: "i \<le> j" unfolding i j by simp
    from hi have "256 * (j + 1) \<le> 256 * (i + M)" unfolding i j by (simp add: algebra_simps)
    then have "j + 1 \<le> i + M" by simp
    with ij have "j - i < M" by simp
    moreover from ij have "b = a + (j - i) * 256" unfolding i j by (simp add: algebra_simps)
    ultimately show "b \<in> (\<lambda>k. a + k * 256) ` {0 ..< M}" by simp
  next
    fix b assume "b \<in> (\<lambda>k. a + k * 256) ` {0 ..< M}"
    then obtain k where k: "k < M" "b = a + k * 256" by auto
    have "256 dvd b" unfolding k i by simp
    moreover from k(1) have "k + 1 \<le> M" by simp
    then have "256 * (k + 1) \<le> 256 * M" by (simp only: mult_le_mono2)
    then have "b + 256 \<le> a + 256 * M" unfolding k by simp
    moreover have "a \<le> b" unfolding k by simp
    ultimately show "b \<in> blocks24 n" by (simp add: mem)
  qed
qed

text \<open>
  The blocks of \<open>blocks24\<close> cover the address range of the network; two of them that
  differ are disjoint, since each starts at a multiple of 256.
\<close>

lemma blocks24_cover:
  assumes "valid_network n" and "prefixlen n \<le> 24"
  shows "(\<Union>b \<in> blocks24 n. {b ..< b + 256}) = {network_address n ..< network_address n + 2 ^ (32 - prefixlen n)}"
proof -
  define a where "a = network_address n"
  define M :: nat where "M = 2 ^ (24 - prefixlen n)"
  have "32 - prefixlen n = 8 + (24 - prefixlen n)"
    using assms(2) by simp
  then have "(2 :: nat) ^ (32 - prefixlen n) = 2 ^ 8 * 2 ^ (24 - prefixlen n)"
    by (simp only: power_add)
  then have size: "(2 :: nat) ^ (32 - prefixlen n) = 256 * M"
    by (simp add: M_def)
  have img: "blocks24 n = (\<lambda>k. a + k * 256) ` {0 ..< M}"
    unfolding a_def M_def by (rule blocks24_image [OF assms])
  show ?thesis
    unfolding size a_def [symmetric] img
  proof (intro set_eqI iffI)
    fix x assume "x \<in> (\<Union>b \<in> (\<lambda>k. a + k * 256) ` {0 ..< M}. {b ..< b + 256})"
    then obtain k where k: "k < M" "a + k * 256 \<le> x" "x < a + k * 256 + 256" by auto
    from k(1) have "k + 1 \<le> M" by simp
    then have "256 * (k + 1) \<le> 256 * M" by (simp only: mult_le_mono2)
    with k show "x \<in> {a ..< a + 256 * M}" by simp
  next
    fix x assume "x \<in> {a ..< a + 256 * M}"
    then have x: "a \<le> x" "x - a < 256 * M" by auto
    define k where "k = (x - a) div 256"
    from x(2) have "k < M" unfolding k_def by (simp add: less_mult_imp_div_less mult.commute)
    moreover have "x - a = k * 256 + (x - a) mod 256" unfolding k_def by simp
    with x(1) have "a + k * 256 \<le> x" "x < a + k * 256 + 256"
      by (simp_all add: le_diff_conv2 less_diff_conv2) 
    ultimately show "x \<in> (\<Union>b \<in> (\<lambda>k. a + k * 256) ` {0 ..< M}. {b ..< b + 256})" by auto
  qed
qed

lemma blocks24_disjoint:
  assumes "b \<in> blocks24 n" and "c \<in> blocks24 n" and "b \<noteq> c"
  shows "{b ..< b + 256} \<inter> {c ..< c + 256} = {}"
proof -
  from assms(1,2) obtain i j where "b = 256 * i" and "c = 256 * j"
    by (auto simp add: blocks24_def elim!: dvdE)
  with assms(3) show ?thesis by auto
qed



lemma keys_eval: "three_octets 167772160 = ''10.0.0''" "three_octets 167772416 = ''10.0.1''"
   "three_octets 167838211 = ''10.1.2''"
  by (simp_all add: three_octets_def str_nat_small)

lemmas ip_network4_eval =
  ip_network4_def ip_int_from_string_def parse_octet_def isdigit_def int_of_str_def
  make_netmask_def prefix_from_ip_string_def prefix_from_ip_int_def Let_def



lemma parse_25: "ip_network4 ''10.0.0.0/25'' = Some \<lparr>network_address = 167772160, prefixlen = 25\<rparr>"
  by (simp add: ip_network4_eval)

lemma parse_32: "ip_network4 ''10.1.2.3/32'' = Some \<lparr>network_address = 167838211, prefixlen = 32\<rparr>"
  by (simp add: ip_network4_eval)

subsection \<open>Rows of the sheet\<close>


lemma row_information_fields:
  assumes "row_information row = Inr information"
  shows "\<exists>c. row ! 0 = CStr c \<and> cidr information = replace_space c"
    and "account_id information = row ! 1" and "name information = row ! 2"
    and "vpc_id information = row ! 3" and "associate_with information = row ! 4"
    and "parse_propagate_to (row ! 5) = Inr (propagate_to information)"
  using assms
  by (auto simp add: row_information_def bind_exn_def cell_at_def
      split: if_splits cell.splits sum.splits)

lemmas row_information_eval =
  row_information_def bind_exn_def cell_at_def parse_propagate_to_def replace_space_def
  strip_def isspace_def

lemma core_row_information: "row_information core_row = Inr core"
  by (simp add: row_information_eval core_row_def core_def)


lemma host_row_information: "row_information host_row = Inr host"
  by (simp add: row_information_eval host_row_def host_def)



lemma parse_host: "ip_network4 (cidr host) = Some \<lparr>network_address = 167838211, prefixlen = 32\<rparr>"
  by (simp add: host_def parse_32)






lemma expand_row_parses_cidr:
  "expand_row ip_network show_warnings information st =
     expand_row (\<lambda>s. if s = cidr information then ip_network s else None) show_warnings information st"
  by (simp add: expand_row_def)








subsection \<open>Normalising a row\<close>

text \<open>
  C8, as the code has it. The CIDR text of a row loses every blank (U+0020), wherever it
  stands, and nothing else; the result is the only text the parser is asked about. The
  \<open>propagate_to\<close> cell is split at its commas and every piece is stripped of the white
  space around it; an empty cell, text or not, gives the empty list.
\<close>

theorem row_normalisation:
  assumes "row_information row = Inr information"
  shows "(\<exists>c. row ! 0 = CStr c \<and> cidr information = filter (\<lambda>x. x \<noteq> CHR '' '') c)
       \<and> CHR '' '' \<notin> set (cidr information)
       \<and> expand_row ip_network show_warnings information st =
           expand_row (\<lambda>s. if s = cidr information then ip_network s else None)
             show_warnings information st
       \<and> propagate_to information =
           (case row ! 5 of
              CStr s \<Rightarrow> if s = [] then [] else map strip (str_split CHR '','' s)
            | _ \<Rightarrow> [])
       \<and> (\<forall>t \<in> set (propagate_to information).
             t = [] \<or> (\<not> isspace (hd t) \<and> \<not> isspace (last t)))"
proof -
  from row_information_fields(1) [OF assms] obtain c where
    c: "row ! 0 = CStr c" "cidr information = filter (\<lambda>x. x \<noteq> CHR '' '') c"
    by (auto simp add: replace_space_def)
  from c(2) have nosp: "CHR '' '' \<notin> set (cidr information)" by simp
  from row_information_fields(6) [OF assms]
  have props: "propagate_to information =
           (case row ! 5 of
              CStr s \<Rightarrow> if s = [] then [] else map strip (str_split CHR '','' s)
            | _ \<Rightarrow> [])"
    by (auto simp add: parse_propagate_to_def split: if_splits cell.splits)
  have "\<forall>t \<in> set (propagate_to information). t = [] \<or> (\<not> isspace (hd t) \<and> \<not> isspace (last t))"
    unfolding props using strip_ends by (auto split: cell.splits)
  with c nosp props expand_row_parses_cidr [of ip_network show_warnings information st]
  show ?thesis by blast
qed

theorem row_normalisation_witness:
  "cidr core = filter (\<lambda>x. x \<noteq> CHR '' '') ''10.0.0.0 /23''
   \<and> cidr core = ''10.0.0.0/23''
   \<and> propagate_to core = map strip (str_split CHR '','' ''Infrastructure, Shared '')
   \<and> propagate_to core = [''Infrastructure'', ''Shared'']"
  using row_normalisation [OF core_row_information, of ip_network4 True "(Map.empty, [])"]
  by (simp add: core_row_def core_def strip_def isspace_def)

text \<open>
  C8 as stated does not hold: white space other than the blank stays in the CIDR text. A
  tab before the slash is still there when the text is parsed, and the parser refuses it.
\<close>

theorem tab_stays_in_cidr:
  "row_information tab_row =
     Inr \<lparr>cidr = ''10.0.0.0'' @ [CHR 0x09] @ ''/23'', account_id = CInt 111111111111,
          name = CStr ''Core'', vpc_id = CStr ''vpc-1'', associate_with = CStr ''Isolated'',
          propagate_to = []\<rparr>
   \<and> isspace (CHR 0x09)
   \<and> ip_network4 (''10.0.0.0'' @ [CHR 0x09] @ ''/23'') = None"
  by (simp add: row_information_eval tab_row_def ip_network4_eval)

subsection \<open>Networks of at most 24 prefix bits\<close>



subsection \<open>Networks of more than 24 prefix bits\<close>

text \<open>
  A prefix length from 25 to 31, like text that does not parse, leaves the index as it
  is and prints one line when warnings are enabled. A prefix length of 32 does not:
  \<^verbatim>\<open>subnets\<close> yields a network of a single address back without looking at
  \<^verbatim>\<open>new_prefix\<close>, and the loop writes the key of the /24 block around that address.
\<close>

lemma finer_than_24_skipped:
  assumes "ip_network (cidr information) = Some n" and "24 < prefixlen n" and "prefixlen n \<noteq> 32"
  shows "expand_row ip_network show_warnings information (return_dict, printed) =
           (return_dict, if show_warnings then printed @ [skipping_message information] else printed)"
  using assms by (simp add: expand_row_def subnets_def max_prefixlen_def)

lemma unparsable_skipped:
  assumes "ip_network (cidr information) = None"
  shows "expand_row ip_network show_warnings information (return_dict, printed) =
           (return_dict, if show_warnings then printed @ [skipping_message information] else printed)"
  using assms by (simp add: expand_row_def)

lemma host_network_inserted:
  assumes "ip_network (cidr information) = Some n" and "prefixlen n = 32"
  shows "expand_row ip_network show_warnings information (return_dict, printed) =
           (return_dict(three_octets (network_address n) \<mapsto> information), printed)"
  using assms by (simp add: expand_row_def subnets_def max_prefixlen_def block_key_three_octets)

lemma finer_row_skipped_example:
  "excel_to_cidr_dict ip_network4
     [sheet_header, [CStr ''10.0.0.0/25'', CNone, CStr ''Small'', CNone, CNone, CNone]] True =
   Inr (Map.empty, [''Skipping 10.0.0.0/25 (Small), shorter than /24. ''])"
proof -
  let ?i = "\<lparr>cidr = ''10.0.0.0/25'', account_id = CNone, name = CStr ''Small'', vpc_id = CNone,
             associate_with = CNone, propagate_to = []\<rparr>"
  have "row_information [CStr ''10.0.0.0/25'', CNone, CStr ''Small'', CNone, CNone, CNone] = Inr ?i"
    by (simp add: row_information_eval)
  moreover have "ip_network4 (cidr ?i) = Some \<lparr>network_address = 167772160, prefixlen = 25\<rparr>"
    by (simp add: parse_25)
  ultimately show ?thesis
    by (simp add: excel_to_cidr_dict_def skipping_message_def
        finer_than_24_skipped [where ip_network = ip_network4 and information = ?i
          and n = "\<lparr>network_address = 167772160, prefixlen = 25\<rparr>"])
qed

text \<open>
  C5. The sheet below declares the single address 10.1.2.3/32. With warnings enabled the
  loader prints nothing and returns an index in which the key 10.1.2 is bound to that row.
\<close>

theorem host_network_gets_a_key:
  "excel_to_cidr_dict ip_network4 [sheet_header, host_row] True = Inr ([''10.1.2'' \<mapsto> host], [])"
  by (simp add: excel_to_cidr_dict_def host_row_information
      host_network_inserted [where ip_network = ip_network4 and information = host, OF parse_host]
      keys_eval)

subsection \<open>Rows that write the same key\<close>



section \<open>Properties of the reachability check\<close>

lemma dict_row_header:
  "dict_row header [a, b, c] =
     [''src'' \<mapsto> Some a, ''dest'' \<mapsto> Some b, ''numpackets'' \<mapsto> Some c]"
  by (simp add: dict_row_def header_def)

lemmas check_flow_log_eval =
  check_flow_log_def DictReader_def dict_row_header loop_body_def info_lookup_def
  example_info_def on_key_error_def check_reach_def init_locals_def Let_def hub_def spoke_def

subsection \<open>Rows whose two keys resolve\<close>

text \<open>
  A row that reaches the loop body and whose \<open>src\<close> and \<open>dest\<close> keys are both in the
  index adds one to \<open>success_count\<close> exactly when the association of the source record
  is a string that occurs in the propagation list of the destination record; otherwise
  it adds one to \<open>failed_count\<close> and puts \<open>failed_message\<close> of the two records into
  \<open>failed_strings\<close>. The message is computed from the two records alone, so a second row
  with the same keys and any other packet count adds one more to \<open>failed_count\<close> and no
  new message.
\<close>

lemma cell_in_iff: "cell_in c xs \<longleftrightarrow> (\<exists>s. c = CStr s \<and> s \<in> set xs)"
  by (cases c) simp_all

lemma loop_body_resolved_row:
  assumes "row ''src'' = Some src" and "row ''dest'' = Some dst"
    and "row ''numpackets'' = Some n"
    and "row' ''src'' = Some src" and "row' ''dest'' = Some dst"
    and "row' ''numpackets'' = Some n'"
    and "info_lookup info src = Some rs" and "info_lookup info dst = Some rd"
  shows "loop_body info show_warnings row s =
           Inr (if cell_in (associate_with rs) (propagate_to rd)
                then s\<lparr>total_count := total_count s + 1,
                       success_count := success_count s + 1,
                       src_bound := Some rs, dst_bound := Some rd\<rparr>
                else s\<lparr>total_count := total_count s + 1,
                       failed_count := failed_count s + 1,
                       failed_strings := insert (failed_message rs rd) (failed_strings s),
                       src_bound := Some rs, dst_bound := Some rd\<rparr>)
         \<and> (\<not> cell_in (associate_with rs) (propagate_to rd) \<longrightarrow>
              process_rows info show_warnings [row, row'] s =
                Inr (s\<lparr>total_count := total_count s + 2,
                       failed_count := failed_count s + 2,
                       failed_strings := insert (failed_message rs rd) (failed_strings s),
                       src_bound := Some rs, dst_bound := Some rd\<rparr>))"
  using assms by (simp add: loop_body_def check_reach_def Let_def)

lemma loop_body_resolved_row_failed_example:
  "loop_body example_info False (dict_row header [''10.0.5'', ''10.0.5'', ''3'']) init_locals =
     Inr (init_locals\<lparr>total_count := 1, failed_count := 1,
            failed_strings := {failed_message spoke spoke},
            src_bound := Some spoke, dst_bound := Some spoke\<rparr>)
   \<and> process_rows example_info False
       [dict_row header [''10.0.5'', ''10.0.5'', ''3''],
        dict_row header [''10.0.5'', ''10.0.5'', ''8'']] init_locals =
     Inr (init_locals\<lparr>total_count := 2, failed_count := 2,
            failed_strings := {failed_message spoke spoke},
            src_bound := Some spoke, dst_bound := Some spoke\<rparr>)"
proof -
  have found: "info_lookup example_info (Some ''10.0.5'') = Some spoke"
    by (simp add: info_lookup_def example_info_def)
  have refused: "\<not> cell_in (associate_with spoke) (propagate_to spoke)"
    by (simp add: spoke_def)
  have "dict_row header [''10.0.5'', ''10.0.5'', ''3''] ''src'' = Some (Some ''10.0.5'')"
    and "dict_row header [''10.0.5'', ''10.0.5'', ''3''] ''dest'' = Some (Some ''10.0.5'')"
    and "dict_row header [''10.0.5'', ''10.0.5'', ''3''] ''numpackets'' = Some (Some ''3'')"
    and "dict_row header [''10.0.5'', ''10.0.5'', ''8''] ''src'' = Some (Some ''10.0.5'')"
    and "dict_row header [''10.0.5'', ''10.0.5'', ''8''] ''dest'' = Some (Some ''10.0.5'')"
    and "dict_row header [''10.0.5'', ''10.0.5'', ''8''] ''numpackets'' = Some (Some ''8'')"
    by (simp_all add: dict_row_header)
  from loop_body_resolved_row [OF this found found, of False init_locals] refused
  show ?thesis
    by (simp only: if_False simp_thms) (simp add: init_locals_def)
qed

lemma loop_body_resolved_row_success_example:
  "loop_body example_info False (dict_row header [''10.0.0'', ''10.0.5'', ''3'']) init_locals =
     Inr (init_locals\<lparr>total_count := 1, success_count := 1,
            src_bound := Some hub, dst_bound := Some spoke\<rparr>)"
proof -
  have src: "info_lookup example_info (Some ''10.0.0'') = Some hub"
    and dst: "info_lookup example_info (Some ''10.0.5'') = Some spoke"
    by (simp_all add: info_lookup_def example_info_def)
  have allowed: "cell_in (associate_with hub) (propagate_to spoke)"
    by (simp add: hub_def spoke_def)
  have "dict_row header [''10.0.0'', ''10.0.5'', ''3''] ''src'' = Some (Some ''10.0.0'')"
    and "dict_row header [''10.0.0'', ''10.0.5'', ''3''] ''dest'' = Some (Some ''10.0.5'')"
    and "dict_row header [''10.0.0'', ''10.0.5'', ''3''] ''numpackets'' = Some (Some ''3'')"
    by (simp_all add: dict_row_header)
  from loop_body_resolved_row [OF this this src dst, of False init_locals] allowed
  show ?thesis
    by (simp add: init_locals_def)
qed

subsection \<open>Rows with a key that is not in the index\<close>

text \<open>
  With warnings enabled, a row that reaches the loop body and whose \<open>src\<close> or \<open>dest\<close> key
  is not in the index adds one to \<open>unmatched_count\<close> and puts one message into
  \<open>warning_strings\<close>, which names the \<open>src\<close> key when that one is missing and the \<open>dest\<close>
  key otherwise; \<open>success_count\<close>, \<open>failed_count\<close> and \<open>failed_strings\<close> stay as they are.
\<close>

lemma loop_body_unmatched_row_with_warnings:
  assumes "row ''src'' = Some src" and "row ''dest'' = Some dst"
    and "row ''numpackets'' = Some n"
    and "info_lookup info src = None \<or> info_lookup info dst = None"
  shows "loop_body info True row s =
           Inr (s\<lparr>total_count := total_count s + 1,
                  unmatched_count := unmatched_count s + 1,
                  warning_strings :=
                    insert (warning_message (if info_lookup info src = None then src else dst))
                      (warning_strings s),
                  src_bound := (case info_lookup info src of
                                  None \<Rightarrow> src_bound s
                                | Some rs \<Rightarrow> Some rs)\<rparr>)"
  using assms
  by (auto simp add: loop_body_def on_key_error_def Let_def split: option.splits)

lemma loop_body_unmatched_row_with_warnings_example:
  "loop_body example_info True (dict_row header [''10.0.5'', ''10.9.9'', ''3'']) init_locals =
     Inr (init_locals\<lparr>total_count := 1, unmatched_count := 1,
            warning_strings := {''Warning: no entry for '' @ [CHR 0x27] @ ''10.9.9'' @ [CHR 0x27]},
            src_bound := Some spoke\<rparr>)"
  using loop_body_unmatched_row_with_warnings
    [of "dict_row header [''10.0.5'', ''10.9.9'', ''3'']" "Some ''10.0.5''" "Some ''10.9.9''"
        "Some ''3''" example_info init_locals]
  by (simp add: dict_row_header info_lookup_def example_info_def init_locals_def
      warning_message_def repr_key_def repr_str_def repr_char_def isprintable_def Let_def)

text \<open>
  Without warnings, a row with a key that is not in the index is counted as unmatched and
  then goes through the check of line 155 with whatever the variables hold.
\<close>

lemma unmatched_row_without_warnings:
  assumes "row ''src'' = Some src" and "row ''dest'' = Some dst"
    and "row ''numpackets'' = Some n"
    and "info_lookup info src = None \<or> info_lookup info dst = None"
  shows "loop_body info False row s =
           check_reach (s\<lparr>total_count := total_count s + 1,
                          unmatched_count := unmatched_count s + 1,
                          src_bound := (case info_lookup info src of
                                          None \<Rightarrow> src_bound s
                                        | Some rs \<Rightarrow> Some rs)\<rparr>)"
  using assms
  by (auto simp add: loop_body_def on_key_error_def Let_def split: option.splits
      intro!: arg_cong [where f = check_reach])

text \<open>
  C1. Without warnings the handler of the \<^verbatim>\<open>KeyError\<close> does not leave the iteration. The
  flow log below has, after the row that \<^verbatim>\<open>next\<close> consumes, one row that resolves and is
  allowed and one row whose source is not in the index: the second is counted as unmatched
  and, through the values the first one left in the variables, as successful too.
\<close>

theorem unmatched_row_without_warnings_is_checked:
  "check_flow_log example_info False
     [header, [''10.0.0'', ''10.0.0'', ''1''], [''10.0.5'', ''10.0.0'', ''2''],
      [''10.9.9'', ''10.0.0'', ''3'']] =
   Inr \<lparr>total_count = 2, failed_count = 0, success_count = 2, unmatched_count = 1,
        failed_strings = {}, warning_strings = {},
        src_bound = Some spoke, dst_bound = Some hub\<rparr>"
  by (simp add: check_flow_log_eval)

lemma unmatched_first_row_without_warnings_raises:
  "check_flow_log example_info False
     [header, [''10.0.0'', ''10.0.0'', ''1''], [''10.9.9'', ''10.0.0'', ''3'']] =
   Inl UnboundLocalError"
  by (simp add: check_flow_log_eval)

subsection \<open>Which rows are processed\<close>

lemma process_rows_total:
  "process_rows info show_warnings rows s = Inr s' \<Longrightarrow>
     total_count s' = total_count s + length rows"
proof (induction rows arbitrary: s)
  case Nil
  then show ?case by simp
next
  case (Cons row rows)
  from Cons.prems obtain s1 where
    step: "loop_body info show_warnings row s = Inr s1" and
    rest: "process_rows info show_warnings rows s1 = Inr s'"
    by (auto split: sum.splits)
  have "total_count s1 = total_count s + 1"
    using step
    by (auto simp add: loop_body_def on_key_error_def check_reach_def Let_def
        split: option.splits if_splits)
  with Cons.IH [OF rest] show ?case by simp
qed

lemma check_flow_log_total:
  assumes "check_flow_log info show_warnings (fieldnames # rest) = Inr s"
  shows "total_count s = length (filter (\<lambda>row. row \<noteq> []) rest) - 1"
  using process_rows_total [OF assms [unfolded check_flow_log_def]]
  by (simp add: DictReader_def init_locals_def)

text \<open>
  C3. The reader has taken the header for the field names before \<^verbatim>\<open>next\<close> is called, so
  \<^verbatim>\<open>next\<close> consumes the first data row. A file of the header and one data row is reported
  with no processed row at all.
\<close>

theorem first_data_row_not_counted:
  "check_flow_log example_info show_warnings [header, [''10.0.5'', ''10.0.0'', ''2'']] =
     Inr init_locals
   \<and> total_count init_locals = 0"
  by (simp add: check_flow_log_def DictReader_def init_locals_def)

text \<open>
  C7. The first data row of a flow log never reaches the check. In the index of the
  example both keys of the row below resolve and the association of the source, Hub, is in
  the propagation list of the destination, yet a flow log of the header and this row is
  reported with no successful row. A flow log of the header and the same refused row twice
  is reported with one failed row, not two.
\<close>

theorem first_resolved_row_not_checked:
  "info_lookup example_info (Some ''10.0.0'') = Some hub
   \<and> info_lookup example_info (Some ''10.0.5'') = Some spoke
   \<and> cell_in (associate_with hub) (propagate_to spoke)
   \<and> check_flow_log example_info False [header, [''10.0.0'', ''10.0.5'', ''3'']] =
       Inr \<lparr>total_count = 0, failed_count = 0, success_count = 0, unmatched_count = 0,
            failed_strings = {}, warning_strings = {}, src_bound = None, dst_bound = None\<rparr>
   \<and> \<not> cell_in (associate_with spoke) (propagate_to spoke)
   \<and> check_flow_log example_info False
         [header, [''10.0.5'', ''10.0.5'', ''3''], [''10.0.5'', ''10.0.5'', ''3'']] =
       Inr \<lparr>total_count = 1, failed_count = 1, success_count = 0, unmatched_count = 0,
            failed_strings = {failed_message spoke spoke}, warning_strings = {},
            src_bound = Some spoke, dst_bound = Some spoke\<rparr>"
  by (simp add: check_flow_log_eval)

text \<open>
  C10. The same holds for a first data row with a key that is not in the index: with
  warnings enabled, a flow log of the header and the row below, whose destination 10.9.9
  is unknown, is reported with no unmatched row and no warning.
\<close>

theorem first_unmatched_row_not_warned:
  "info_lookup example_info (Some ''10.0.5'') = Some spoke
   \<and> info_lookup example_info (Some ''10.9.9'') = None
   \<and> check_flow_log example_info True [header, [''10.0.5'', ''10.9.9'', ''3'']] =
       Inr \<lparr>total_count = 0, failed_count = 0, success_count = 0, unmatched_count = 0,
            failed_strings = {}, warning_strings = {}, src_bound = None, dst_bound = None\<rparr>"
  by (simp add: check_flow_log_eval)

subsection \<open>The order of the rows\<close>

text \<open>
  With warnings enabled every row adds its own share to the counters and sets, whatever
  the rows before it were; the rows that the loop processes can then come in any order.
\<close>

lemma loop_body_warnings_defined:
  "(\<exists>s'. loop_body info True row s = Inr s') \<longleftrightarrow>
     (row ''src'' \<noteq> None \<and> row ''dest'' \<noteq> None \<and> row ''numpackets'' \<noteq> None)"
  by (auto simp add: loop_body_def on_key_error_def check_reach_def Let_def
      split: option.splits)

lemma loop_body_warnings_delta:
  assumes "loop_body info True row s = Inr s'"
  shows "total_count s' = total_count s + total_count (row_alone info row)"
    and "failed_count s' = failed_count s + failed_count (row_alone info row)"
    and "success_count s' = success_count s + success_count (row_alone info row)"
    and "unmatched_count s' = unmatched_count s + unmatched_count (row_alone info row)"
    and "failed_strings s' = failed_strings s \<union> failed_strings (row_alone info row)"
    and "warning_strings s' = warning_strings s \<union> warning_strings (row_alone info row)"
  using assms
  by (auto simp add: row_alone_def loop_body_def on_key_error_def check_reach_def Let_def
      init_locals_def split: option.splits if_splits)

lemma process_rows_warnings_defined:
  "(\<exists>s'. process_rows info True rows s = Inr s') \<longleftrightarrow>
     (\<forall>row \<in> set rows. row ''src'' \<noteq> None \<and> row ''dest'' \<noteq> None \<and> row ''numpackets'' \<noteq> None)"
proof (induction rows arbitrary: s)
  case Nil
  then show ?case by simp
next
  case (Cons row rows)
  show ?case
  proof (cases "loop_body info True row s")
    case (Inl e)
    with loop_body_warnings_defined [of info row s] show ?thesis by auto
  next
    case (Inr s1)
    with loop_body_warnings_defined [of info row s] Cons.IH [of s1] show ?thesis by auto
  qed
qed

lemma process_rows_warnings_closed:
  assumes "process_rows info True rows s = Inr s'"
  shows "total_count s' = total_count s + (\<Sum>row\<leftarrow>rows. total_count (row_alone info row))"
    and "failed_count s' = failed_count s + (\<Sum>row\<leftarrow>rows. failed_count (row_alone info row))"
    and "success_count s' = success_count s + (\<Sum>row\<leftarrow>rows. success_count (row_alone info row))"
    and "unmatched_count s' = unmatched_count s + (\<Sum>row\<leftarrow>rows. unmatched_count (row_alone info row))"
    and "failed_strings s' = failed_strings s \<union> (\<Union>row \<in> set rows. failed_strings (row_alone info row))"
    and "warning_strings s' = warning_strings s \<union> (\<Union>row \<in> set rows. warning_strings (row_alone info row))"
  using assms
proof (induction rows arbitrary: s)
  case Nil
  {
    case 1 then show ?case by simp
  next
    case 2 then show ?case by simp
  next
    case 3 then show ?case by simp
  next
    case 4 then show ?case by simp
  next
    case 5 then show ?case by simp
  next
    case 6 then show ?case by simp
  }
next
  case (Cons row rows)
  {
    case 1
    then obtain s1 where a: "loop_body info True row s = Inr s1" and b: "process_rows info True rows s1 = Inr s'"
      by (auto split: sum.splits)
    show ?case using Cons.IH(1) [OF b] loop_body_warnings_delta(1) [OF a] by simp
  next
    case 2
    then obtain s1 where a: "loop_body info True row s = Inr s1" and b: "process_rows info True rows s1 = Inr s'"
      by (auto split: sum.splits)
    show ?case using Cons.IH(2) [OF b] loop_body_warnings_delta(2) [OF a] by simp
  next
    case 3
    then obtain s1 where a: "loop_body info True row s = Inr s1" and b: "process_rows info True rows s1 = Inr s'"
      by (auto split: sum.splits)
    show ?case using Cons.IH(3) [OF b] loop_body_warnings_delta(3) [OF a] by simp
  next
    case 4
    then obtain s1 where a: "loop_body info True row s = Inr s1" and b: "process_rows info True rows s1 = Inr s'"
      by (auto split: sum.splits)
    show ?case using Cons.IH(4) [OF b] loop_body_warnings_delta(4) [OF a] by simp
  next
    case 5
    then obtain s1 where a: "loop_body info True row s = Inr s1" and b: "process_rows info True rows s1 = Inr s'"
      by (auto split: sum.splits)
    show ?case using Cons.IH(5) [OF b] loop_body_warnings_delta(5) [OF a] by auto
  next
    case 6
    then obtain s1 where a: "loop_body info True row s = Inr s1" and b: "process_rows info True rows s1 = Inr s'"
      by (auto split: sum.splits)
    show ?case using Cons.IH(6) [OF b] loop_body_warnings_delta(6) [OF a] by auto
  }
qed

lemma sum_list_mset_cong:
  fixes f :: "'a \<Rightarrow> nat"
  assumes "mset xs = mset ys"
  shows "(\<Sum>x\<leftarrow>xs. f x) = (\<Sum>x\<leftarrow>ys. f x)"
proof -
  have "(\<Sum>x\<leftarrow>xs. f x) = sum_mset (image_mset f (mset xs))"
    by (simp add: sum_mset_sum_list [symmetric])
  also have "\<dots> = sum_mset (image_mset f (mset ys))"
    by (simp only: assms)
  also have "\<dots> = (\<Sum>x\<leftarrow>ys. f x)"
    by (simp add: sum_mset_sum_list [symmetric])
  finally show ?thesis .
qed

lemma process_rows_warnings_any_order:
  assumes "mset rows' = mset rows"
    and "process_rows info True rows s = Inr s1"
  shows "\<exists>s2. process_rows info True rows' s = Inr s2 \<and>
           summary printed True s2 = summary printed True s1"
proof -
  from assms(1) have sets: "set rows' = set rows"
    by (rule mset_eq_setD)
  from assms(2) have "\<exists>s'. process_rows info True rows s = Inr s'" by blast
  then have "\<exists>s'. process_rows info True rows' s = Inr s'"
    unfolding process_rows_warnings_defined sets .
  then obtain s2 where s2: "process_rows info True rows' s = Inr s2" ..
  note c1 = process_rows_warnings_closed [OF assms(2)]
  note c2 = process_rows_warnings_closed [OF s2]
  have "summary printed True s2 = summary printed True s1"
    unfolding summary_def c1 c2 sets
    by (simp add: sum_list_mset_cong [OF assms(1)])
  with s2 show ?thesis by blast
qed

text \<open>
  C2. Two orders of the same rows give different counters. Without warnings, the row
  with the unknown source is checked with what the row before it left behind: a failed
  row in the first order, a successful one in the second. With warnings, exchanging the
  first two data rows changes which of them is consumed before the loop.
\<close>

theorem row_order_changes_counters:
  "check_flow_log example_info False
     [header, [''10.0.0'', ''10.0.0'', ''1''], [''10.0.5'', ''10.0.0'', ''2''],
      [''10.0.5'', ''10.0.5'', ''4''], [''10.9.9'', ''10.0.0'', ''3'']] =
   Inr \<lparr>total_count = 3, failed_count = 2, success_count = 1, unmatched_count = 1,
        failed_strings = {failed_message spoke spoke}, warning_strings = {},
        src_bound = Some spoke, dst_bound = Some spoke\<rparr>
   \<and> check_flow_log example_info False
     [header, [''10.0.0'', ''10.0.0'', ''1''], [''10.0.5'', ''10.0.5'', ''4''],
      [''10.0.5'', ''10.0.0'', ''2''], [''10.9.9'', ''10.0.0'', ''3'']] =
   Inr \<lparr>total_count = 3, failed_count = 1, success_count = 2, unmatched_count = 1,
        failed_strings = {failed_message spoke spoke}, warning_strings = {},
        src_bound = Some spoke, dst_bound = Some hub\<rparr>
   \<and> check_flow_log example_info True
     [header, [''10.0.5'', ''10.0.0'', ''2''], [''10.0.5'', ''10.0.5'', ''4'']] =
   Inr \<lparr>total_count = 1, failed_count = 1, success_count = 0, unmatched_count = 0,
        failed_strings = {failed_message spoke spoke}, warning_strings = {},
        src_bound = Some spoke, dst_bound = Some spoke\<rparr>
   \<and> check_flow_log example_info True
     [header, [''10.0.5'', ''10.0.5'', ''4''], [''10.0.5'', ''10.0.0'', ''2'']] =
   Inr \<lparr>total_count = 1, failed_count = 0, success_count = 1, unmatched_count = 0,
        failed_strings = {}, warning_strings = {},
        src_bound = Some spoke, dst_bound = Some hub\<rparr>"
  by (simp add: check_flow_log_eval)

subsection \<open>Missing input files\<close>

text \<open>
  C9. When one of the two paths does not name a file, \<^verbatim>\<open>main\<close> prints the first such
  path (the workbook is looked at first) followed by \<^verbatim>\<open>does not exist.\<close> and exits with
  code 1; nothing of the workbook or of the flow log has been read then. When both name
  files it goes on to load the workbook and to check the flow log.
\<close>

theorem main_missing_file_exits:
  "main ip_network fs a =
     (if \<not> isfile fs (arg_xlsx a) then Exit 1 [arg_xlsx a @ '' does not exist.'']
      else if \<not> isfile fs (arg_flowlogcsv a) then
        Exit 1 [arg_flowlogcsv a @ '' does not exist.'']
      else run ip_network fs a)"
  by (simp add: main_def)

end
